theory Spec2Isabelle
  imports Main "HOL-Library.Sublist"
begin

section \<open>The HTTP run database client (mlrun/db/httpdb.py)\<close>

text \<open>
  A shallow embedding of the class \<open>HTTPRunDB\<close>. Python strings and byte strings are
  \<open>string\<close> (a byte string is the list of its bytes), Python integers are \<open>int\<close>,
  a dict literal is an association list in insertion order, and an argument whose
  default is \<open>None\<close> has an option type or is a \<open>pyval\<close>. Every exception of the source
  is a value of \<open>error\<close>; an operation returns \<open>error + 'a\<close> together with the world it
  leaves behind (the requests that went out, what was printed, slept and logged).
\<close>

subsection \<open>Values\<close>

datatype pyval = PNone | PStr string | PInt int | PList "string list"

datatype json =
    JNull | JBool bool | JNum int | JStr string
  | JArr "json list" | JObj "(string \<times> json) list"

datatype error =
    RunDBError string
  | OSError string
  | ValueError string
  | UnboundLocalError string
  | UnicodeDecodeError
  | JSONDecodeError
  | KeyError string
  | TypeError

definition default_project :: string where
  "default_project = ''default''"

definition bool2str :: "bool \<Rightarrow> string" where
  "bool2str val = (if val then ''yes'' else ''no'')"

text \<open>\<open>a or b\<close> on strings: the empty string is falsy.\<close>

definition str_or :: "string \<Rightarrow> string \<Rightarrow> string" where
  "str_or a b = (if a \<noteq> [] then a else b)"

text \<open>\<open>str(n)\<close> for an integer: decimal digits, a minus sign when negative.\<close>

fun str_nat :: "nat \<Rightarrow> string" where
  "str_nat n =
     (if n < 10 then [''0123456789'' ! n]
      else str_nat (n div 10) @ [''0123456789'' ! (n mod 10)])"

declare str_nat.simps [simp del]

definition str_int :: "int \<Rightarrow> string" where
  "str_int i = (if i < 0 then ''-'' @ str_nat (nat (- i)) else str_nat (nat i))"

text \<open>\<open>d.get(key, default)\<close> on a dict of strings.\<close>

definition dict_get :: "(string \<times> string) list \<Rightarrow> string \<Rightarrow> string \<Rightarrow> string" where
  "dict_get d key dflt = (case map_of d key of None \<Rightarrow> dflt | Some v \<Rightarrow> v)"

subsection \<open>The HTTP library: requests, responses, status check\<close>

text \<open>
  The keyword arguments handed to \<open>requests.request\<close>: a dict from keyword to value,
  one constructor per keyword the source uses.
\<close>

datatype kwarg =
    Params "(string \<times> pyval) list"
  | Data string
  | Json json
  | Auth string string
  | Headers "(string \<times> string) list"

record request =
  req_method :: string
  url :: string
  timeout :: int
  kw :: "(string \<times> kwarg) list"

text \<open>
  A response as the source reads it. The header dict of the library is
  case-insensitive: it is keyed by the lower-cased header name. \<open>headers\<close> is that
  association, and the source looks up lower-case literals only.
\<close>

record response =
  status_code :: int
  reason :: string
  resp_url :: string
  headers :: "(string \<times> string) list"
  content :: string

text \<open>
  What \<open>requests.request\<close> does with one request: it raises a \<open>RequestException\<close>
  (connection error, timeout, ...) whose \<open>str\<close> is the given text, or it returns a
  response. The remote side is a function of the requests it has seen so far and of
  the current one.
\<close>

datatype request_exception =
    ConnectionError string
  | Timeout string
  | HTTPError string
  | OtherRequestException string

fun exc_str :: "request_exception \<Rightarrow> string" where
  "exc_str (ConnectionError s) = s"
| "exc_str (Timeout s) = s"
| "exc_str (HTTPError s) = s"
| "exc_str (OtherRequestException s) = s"

datatype outcome = Raises request_exception | Responds response

type_synonym remote = "request list \<Rightarrow> request \<Rightarrow> outcome"

text \<open>
  \<open>Response.raise_for_status\<close> of the library: an \<open>HTTPError\<close> for a status code from
  400 to 599, nothing otherwise. \<open>Response.ok\<close> is defined by the library as
  "\<open>raise_for_status\<close> does not raise".
\<close>

definition raise_for_status :: "response \<Rightarrow> request_exception option" where
  "raise_for_status resp =
     (if 400 \<le> status_code resp \<and> status_code resp < 500 then
        Some (HTTPError (str_int (status_code resp) @ '' Client Error: '' @ reason resp
                         @ '' for url: '' @ resp_url resp))
      else if 500 \<le> status_code resp \<and> status_code resp < 600 then
        Some (HTTPError (str_int (status_code resp) @ '' Server Error: '' @ reason resp
                         @ '' for url: '' @ resp_url resp))
      else None)"

definition ok :: "response \<Rightarrow> bool" where
  "ok resp = (raise_for_status resp = None)"

subsection \<open>The world\<close>

record world =
  sent :: "request list"
  printed :: "(string \<times> string) list"
  slept :: "int list"
  logged :: "string list"

text \<open>\<open>print(text, end=e)\<close>, \<open>time.sleep(n)\<close> and \<open>logger.error(msg)\<close>.\<close>

definition print_end :: "string \<Rightarrow> string \<Rightarrow> world \<Rightarrow> world" where
  "print_end text e w = w\<lparr>printed := printed w @ [(text, e)]\<rparr>"

definition sleep :: "int \<Rightarrow> world \<Rightarrow> world" where
  "sleep n w = w\<lparr>slept := slept w @ [n]\<rparr>"

definition logger_error :: "string \<Rightarrow> world \<Rightarrow> world" where
  "logger_error msg w = w\<lparr>logged := logged w @ [msg]\<rparr>"

subsection \<open>The client\<close>

record HTTPRunDB =
  base_url :: string
  user :: string
  password :: string
  token :: string

text \<open>
  \<open>api_call\<close>, in the order of its body: the URL; the keyword dict, which keeps the
  pairs of \<open>params\<close>, \<open>data\<close> and \<open>json\<close> whose value is not \<open>None\<close> and then gets the
  credentials; the one request; and the handler, which turns a \<open>RequestException\<close> of
  the library or of \<open>raise_for_status\<close> into a \<open>RunDBError\<close> with the message
  \<open>error or '{} {}, error: {}'.format(method, url, err)\<close>.
\<close>

definition api_url :: "HTTPRunDB \<Rightarrow> string \<Rightarrow> string" where
  "api_url self path = base_url self @ ''/api/'' @ path"

definition api_kw ::
  "HTTPRunDB \<Rightarrow> (string \<times> pyval) list option \<Rightarrow> string option \<Rightarrow> json option \<Rightarrow>
   (string \<times> kwarg) list" where
  "api_kw self params body js =
     (let kw0 = List.map_filter (\<lambda>(key, val). map_option (Pair key) val)
                  [(''params'', map_option Params params),
                   (''data'', map_option Data body),
                   (''json'', map_option Json js)]
      in if user self \<noteq> [] then
           kw0 @ [(''auth'', Auth (user self) (password self))]
         else if token self \<noteq> [] then
           kw0 @ [(''headers'', Headers [(''Authorization'', ''Bearer '' @ token self)])]
         else kw0)"

definition api_request ::
  "HTTPRunDB \<Rightarrow> string \<Rightarrow> string \<Rightarrow> (string \<times> pyval) list option \<Rightarrow> string option \<Rightarrow>
   json option \<Rightarrow> int \<Rightarrow> request" where
  "api_request self meth path params body js tmo =
     \<lparr>req_method = meth, url = api_url self path, timeout = tmo, kw = api_kw self params body js\<rparr>"

definition auto_message :: "string \<Rightarrow> string \<Rightarrow> request_exception \<Rightarrow> string" where
  "auto_message meth u e = meth @ '' '' @ u @ '', error: '' @ exc_str e"

definition error_message ::
  "string option \<Rightarrow> string \<Rightarrow> string \<Rightarrow> request_exception \<Rightarrow> string" where
  "error_message err meth u e =
     str_or (case err of None \<Rightarrow> [] | Some c \<Rightarrow> c) (auto_message meth u e)"

definition api_call ::
  "remote \<Rightarrow> HTTPRunDB \<Rightarrow> string \<Rightarrow> string \<Rightarrow> string option \<Rightarrow>
   (string \<times> pyval) list option \<Rightarrow> string option \<Rightarrow> json option \<Rightarrow> int \<Rightarrow>
   world \<Rightarrow> (error + response) \<times> world" where
  "api_call net self meth path err params body js tmo w =
     (let req = api_request self meth path params body js tmo;
          w' = w\<lparr>sent := sent w @ [req]\<rparr>
      in case net (sent w) req of
           Raises e \<Rightarrow> (Inl (RunDBError (error_message err meth (url req) e)), w')
         | Responds resp \<Rightarrow>
             (case raise_for_status resp of
                Some e \<Rightarrow> (Inl (RunDBError (error_message err meth (url req) e)), w')
              | None \<Rightarrow> (Inr resp, w')))"

definition path_of :: "string \<Rightarrow> string \<Rightarrow> string \<Rightarrow> string" where
  "path_of pfx project uid =
     (let project = str_or project default_project
      in pfx @ ''/'' @ project @ ''/'' @ uid)"

text \<open>
  \<open>bytes.decode()\<close>: UTF-8, strict. \<open>utf8_seq_len\<close> is the length of the well-formed
  byte sequence at the head of the input (0 when there is none); the decoded text is
  kept as its bytes.
\<close>

definition in_range :: "char \<Rightarrow> nat \<Rightarrow> nat \<Rightarrow> bool" where
  "in_range c lo hi = (lo \<le> of_char c \<and> (of_char c :: nat) \<le> hi)"

fun utf8_seq_len :: "string \<Rightarrow> nat" where
  "utf8_seq_len [] = 0"
| "utf8_seq_len (b # bs) =
     (if in_range b 0x00 0x7F then 1
      else if in_range b 0xC2 0xDF then
        (case bs of
           c1 # _ \<Rightarrow> if in_range c1 0x80 0xBF then 2 else 0
         | _ \<Rightarrow> 0)
      else if in_range b 0xE0 0xEF then
        (case bs of
           c1 # c2 # _ \<Rightarrow>
             if in_range c1 (if in_range b 0xE0 0xE0 then 0xA0 else 0x80)
                            (if in_range b 0xED 0xED then 0x9F else 0xBF)
                \<and> in_range c2 0x80 0xBF
             then 3 else 0
         | _ \<Rightarrow> 0)
      else if in_range b 0xF0 0xF4 then
        (case bs of
           c1 # c2 # c3 # _ \<Rightarrow>
             if in_range c1 (if in_range b 0xF0 0xF0 then 0x90 else 0x80)
                            (if in_range b 0xF4 0xF4 then 0x8F else 0xBF)
                \<and> in_range c2 0x80 0xBF \<and> in_range c3 0x80 0xBF
             then 4 else 0
         | _ \<Rightarrow> 0)
      else 0)"

fun utf8_valid :: "string \<Rightarrow> bool" where
  "utf8_valid [] = True"
| "utf8_valid (b # bs) =
     (case utf8_seq_len (b # bs) of
        0 \<Rightarrow> False
      | Suc k \<Rightarrow> utf8_valid (drop k bs))"

definition decode :: "string \<Rightarrow> error + string" where
  "decode bs = (if utf8_valid bs then Inr bs else Inl UnicodeDecodeError)"

subsection \<open>Logs\<close>

definition store_log_params :: "bool \<Rightarrow> (string \<times> pyval) list" where
  "store_log_params appnd = [(''append'', PStr (bool2str appnd))]"

definition get_log_params :: "int \<Rightarrow> int \<Rightarrow> (string \<times> pyval) list" where
  "get_log_params offset sz = [(''offset'', PInt offset), (''size'', PInt sz)]"

definition store_log ::
  "remote \<Rightarrow> HTTPRunDB \<Rightarrow> string \<Rightarrow> string \<Rightarrow> string option \<Rightarrow> bool \<Rightarrow>
   world \<Rightarrow> (error + unit) \<times> world" where
  "store_log net self uid project body appnd w =
     (if body = None \<or> body = Some [] then (Inr (), w)
      else
        (let path = path_of ''log'' project uid;
             params = store_log_params appnd;
             err = ''store log '' @ project @ ''/'' @ uid
         in case api_call net self ''POST'' path (Some err) (Some params) body None 20 w of
              (Inl e, w') \<Rightarrow> (Inl e, w')
            | (Inr _, w') \<Rightarrow> (Inr (), w')))"

text \<open>
  \<open>get_log\<close>: \<open>state\<close> is assigned under \<open>if resp.headers:\<close> only, so the
  \<open>return state, resp.content\<close> after it raises \<open>UnboundLocalError\<close> when the header
  dict is empty.
\<close>

definition get_log ::
  "remote \<Rightarrow> HTTPRunDB \<Rightarrow> string \<Rightarrow> string \<Rightarrow> int \<Rightarrow> int \<Rightarrow>
   world \<Rightarrow> (error + string \<times> string) \<times> world" where
  "get_log net self uid project offset sz w =
     (let params = get_log_params offset sz;
          path = path_of ''log'' project uid;
          err = ''get log '' @ project @ ''/'' @ uid
      in case api_call net self ''GET'' path (Some err) (Some params) None None 20 w of
           (Inl e, w') \<Rightarrow> (Inl e, w')
         | (Inr resp, w') \<Rightarrow>
             (if headers resp \<noteq> [] then
                (Inr (dict_get (headers resp) ''function_status'' [], content resp), w')
              else (Inl (UnboundLocalError ''state''), w')))"

text \<open>\<open>if text: print(text.decode(), end=e)\<close>.\<close>

definition emit :: "string \<Rightarrow> string \<Rightarrow> world \<Rightarrow> (error + unit) \<times> world" where
  "emit text e w =
     (if text \<noteq> [] then
        (case decode text of
           Inl x \<Rightarrow> (Inl x, w)
         | Inr s \<Rightarrow> (Inr (), print_end s e w))
      else (Inr (), w))"

text \<open>
  The \<open>while\<close> loop of \<open>watch_log\<close>, entered with the state, text and offset of the
  fetch before it. Nothing bounds the number of rounds, so the loop is a partial
  function: \<open>None\<close> is a run that never returns.
\<close>

partial_function (option) watch_loop ::
  "remote \<Rightarrow> HTTPRunDB \<Rightarrow> string \<Rightarrow> string \<Rightarrow> string \<Rightarrow> string \<Rightarrow> int \<Rightarrow>
   world \<Rightarrow> ((error + string) \<times> world) option" where
  "watch_loop net self uid project state text offset w =
     (if state \<in> set [''pending'', ''running''] then
        (let offset' = offset + int (length text);
             w1 = sleep 2 w
         in case get_log net self uid project offset' 0 w1 of
              (Inl e, w2) \<Rightarrow> Some (Inl e, w2)
            | (Inr (state', text'), w2) \<Rightarrow>
                (case emit text' [] w2 of
                   (Inl e, w3) \<Rightarrow> Some (Inl e, w3)
                 | (Inr _, w3) \<Rightarrow> watch_loop net self uid project state' text' offset' w3))
      else Some (Inr state, w))"

definition watch_log ::
  "remote \<Rightarrow> HTTPRunDB \<Rightarrow> string \<Rightarrow> string \<Rightarrow> bool \<Rightarrow> int \<Rightarrow>
   world \<Rightarrow> ((error + string) \<times> world) option" where
  "watch_log net self uid project watch offset w =
     (case get_log net self uid project offset 0 w of
        (Inl e, w1) \<Rightarrow> Some (Inl e, w1)
      | (Inr (state, text), w1) \<Rightarrow>
          (case emit text [CHR 0x0A] w1 of
             (Inl e, w2) \<Rightarrow> Some (Inl e, w2)
           | (Inr _, w2) \<Rightarrow>
               if watch then watch_loop net self uid project state text offset w2
               else Some (Inr state, w2)))"

subsection \<open>Runs, artifacts, functions: the query parameters\<close>

text \<open>\<open>labels or []\<close> and an argument that is a string or \<open>None\<close>.\<close>

definition list_or_empty :: "string list option \<Rightarrow> string list" where
  "list_or_empty labels = (case labels of None \<Rightarrow> [] | Some l \<Rightarrow> l)"

definition str_or_none :: "string option \<Rightarrow> pyval" where
  "str_or_none v = (case v of None \<Rightarrow> PNone | Some s \<Rightarrow> PStr s)"

text \<open>
  The \<open>params\<close> dict of each operation, as its body builds it. \<open>iter_params\<close> is the
  dict of \<open>store_run\<close>, \<open>update_run\<close>, \<open>read_run\<close> and \<open>del_run\<close>; \<open>tag_params\<close> the one
  of \<open>store_artifact\<close>, \<open>store_function\<close> and \<open>get_function\<close>.
\<close>

definition iter_params :: "int \<Rightarrow> (string \<times> pyval) list" where
  "iter_params iter = [(''iter'', PInt iter)]"

definition list_runs_params ::
  "string \<Rightarrow> string option \<Rightarrow> string \<Rightarrow> string list option \<Rightarrow> string \<Rightarrow> bool \<Rightarrow> bool \<Rightarrow>
   (string \<times> pyval) list" where
  "list_runs_params name uid project labels state srt iter =
     (let project = str_or project default_project
      in [(''name'', PStr name),
          (''uid'', str_or_none uid),
          (''project'', PStr project),
          (''label'', PList (list_or_empty labels)),
          (''state'', PStr state),
          (''sort'', PStr (bool2str srt)),
          (''iter'', PStr (bool2str iter))])"

definition del_runs_params ::
  "string \<Rightarrow> string \<Rightarrow> string list option \<Rightarrow> string \<Rightarrow> int \<Rightarrow> (string \<times> pyval) list" where
  "del_runs_params name project labels state days_ago =
     (let project = str_or project default_project
      in [(''name'', PStr name),
          (''project'', PStr project),
          (''label'', PList (list_or_empty labels)),
          (''state'', PStr state),
          (''days_ago'', PStr (str_int days_ago))])"

definition tag_params :: "string \<Rightarrow> (string \<times> pyval) list" where
  "tag_params tag = [(''tag'', PStr tag)]"

definition del_artifact_params :: "string \<Rightarrow> string \<Rightarrow> (string \<times> pyval) list" where
  "del_artifact_params key tag = [(''key'', PStr key), (''tag'', PStr tag)]"

definition list_artifacts_params ::
  "string \<Rightarrow> string \<Rightarrow> string \<Rightarrow> string list option \<Rightarrow> (string \<times> pyval) list" where
  "list_artifacts_params name project tag labels =
     (let project = str_or project default_project
      in [(''name'', PStr name),
          (''project'', PStr project),
          (''tag'', PStr tag),
          (''label'', PList (list_or_empty labels))])"

definition del_artifacts_params ::
  "string \<Rightarrow> string \<Rightarrow> string \<Rightarrow> string list option \<Rightarrow> int \<Rightarrow> (string \<times> pyval) list" where
  "del_artifacts_params name project tag labels days_ago =
     (let project = str_or project default_project
      in [(''name'', PStr name),
          (''project'', PStr project),
          (''tag'', PStr tag),
          (''label'', PList (list_or_empty labels)),
          (''days_ago'', PStr (str_int days_ago))])"

definition list_functions_params ::
  "string \<Rightarrow> string \<Rightarrow> string \<Rightarrow> string list option \<Rightarrow> (string \<times> pyval) list" where
  "list_functions_params name project tag labels =
     [(''project'', PStr (str_or project default_project)),
      (''name'', PStr name),
      (''tag'', PStr tag),
      (''label'', PList (list_or_empty labels))]"

definition get_builder_status_params ::
  "string \<Rightarrow> string \<Rightarrow> string \<Rightarrow> int \<Rightarrow> (string \<times> pyval) list" where
  "get_builder_status_params name project tag offset =
     [(''name'', PStr name),
      (''project'', PStr project),
      (''tag'', PStr tag),
      (''offset'', PStr (str_int offset))]"

text \<open>
  One constructor per operation of the client, with the arguments its \<open>params\<close> dict is
  built from (an object that goes to the request body is left out). \<open>params_of\<close> is the
  \<open>params\<close> argument of the \<open>api_call\<close> the operation makes: \<open>None\<close> when it passes none,
  or makes no call.
\<close>

datatype operation =
    Connect
  | Store_log string string "string option" bool
  | Get_log string string int int
  | Store_run string string int
  | Update_run string string int
  | Read_run string string int
  | Del_run string string int
  | List_runs string "string option" string "string list option" string bool int bool
  | Del_runs string string "string list option" string int
  | Store_artifact string string string string
  | Read_artifact string string string
  | Del_artifact string string string
  | List_artifacts string string string "string list option"
  | Del_artifacts string string string "string list option" int
  | Store_function string string string
  | Get_function string string string
  | List_functions string string string "string list option"
  | Remote_builder json bool
  | Get_builder_status string string string int

fun params_of :: "operation \<Rightarrow> (string \<times> pyval) list option" where
  "params_of Connect = None"
| "params_of (Store_log uid project body appnd) =
     (if body = None \<or> body = Some [] then None else Some (store_log_params appnd))"
| "params_of (Get_log uid project offset sz) = Some (get_log_params offset sz)"
| "params_of (Store_run uid project iter) = Some (iter_params iter)"
| "params_of (Update_run uid project iter) = Some (iter_params iter)"
| "params_of (Read_run uid project iter) = Some (iter_params iter)"
| "params_of (Del_run uid project iter) = Some (iter_params iter)"
| "params_of (List_runs name uid project labels state srt lst iter) =
     Some (list_runs_params name uid project labels state srt iter)"
| "params_of (Del_runs name project labels state days_ago) =
     Some (del_runs_params name project labels state days_ago)"
| "params_of (Store_artifact key uid tag project) = Some (tag_params tag)"
| "params_of (Read_artifact key tag project) = None"
| "params_of (Del_artifact key tag project) = Some (del_artifact_params key tag)"
| "params_of (List_artifacts name project tag labels) =
     Some (list_artifacts_params name project tag labels)"
| "params_of (Del_artifacts name project tag labels days_ago) =
     Some (del_artifacts_params name project tag labels days_ago)"
| "params_of (Store_function name project tag) = Some (tag_params tag)"
| "params_of (Get_function name project tag) = Some (tag_params tag)"
| "params_of (List_functions name project tag labels) =
     Some (list_functions_params name project tag labels)"
| "params_of (Remote_builder runtime with_mlrun) = None"
| "params_of (Get_builder_status name project tag offset) =
     Some (get_builder_status_params name project tag offset)"

subsection \<open>Listing runs\<close>

text \<open>
  \<open>resp.json()\<close> parses the body with the JSON parser of the library, here the
  parameter \<open>loads\<close> (\<open>None\<close> when the body is not JSON); \<open>obj[key]\<close> on the parsed
  value; \<open>RunList\<close> is the list wrapper of the repository, kept opaque.
\<close>

definition resp_json :: "(string \<Rightarrow> json option) \<Rightarrow> response \<Rightarrow> error + json" where
  "resp_json loads resp =
     (case loads (content resp) of None \<Rightarrow> Inl JSONDecodeError | Some j \<Rightarrow> Inr j)"

definition json_item :: "json \<Rightarrow> string \<Rightarrow> error + json" where
  "json_item j key =
     (case j of
        JObj kvs \<Rightarrow> (case map_of kvs key of None \<Rightarrow> Inl (KeyError key) | Some v \<Rightarrow> Inr v)
      | _ \<Rightarrow> Inl TypeError)"

datatype run_list = RunList json

definition list_runs ::
  "(string \<Rightarrow> json option) \<Rightarrow> remote \<Rightarrow> HTTPRunDB \<Rightarrow>
   string \<Rightarrow> string option \<Rightarrow> string \<Rightarrow> string list option \<Rightarrow> string \<Rightarrow> bool \<Rightarrow> int \<Rightarrow> bool \<Rightarrow>
   world \<Rightarrow> (error + run_list) \<times> world" where
  "list_runs loads net self name uid project labels state srt lst iter w =
     (let params = list_runs_params name uid project labels state srt iter;
          err = ''list runs''
      in case api_call net self ''GET'' ''runs'' (Some err) (Some params) None None 20 w of
           (Inl e, w') \<Rightarrow> (Inl e, w')
         | (Inr resp, w') \<Rightarrow>
             (case resp_json loads resp of
                Inl e \<Rightarrow> (Inl e, w')
              | Inr j \<Rightarrow>
                  (case json_item j ''runs'' of
                     Inl e \<Rightarrow> (Inl e, w')
                   | Inr v \<Rightarrow> (Inr (RunList v), w'))))"

subsection \<open>Builds\<close>

text \<open>
  The two build operations wrap \<open>api_call\<close> in \<open>try ... except OSError\<close>. Whether that
  handler catches a \<open>RunDBError\<close> depends on the base class of \<open>RunDBError\<close>, which the
  module imports from elsewhere; it is the parameter \<open>rundb_is_oserror\<close>. \<open>on_oserror\<close>
  is the handler: it logs, then raises an \<open>OSError\<close> with the operation's message.
\<close>

definition on_oserror ::
  "bool \<Rightarrow> string \<Rightarrow> string \<Rightarrow> error \<Rightarrow> world \<Rightarrow> (error + 'a) \<times> world" where
  "on_oserror rundb_is_oserror log_prefix raise_prefix e w =
     (case e of
        OSError m \<Rightarrow> (Inl (OSError (raise_prefix @ m)), logger_error (log_prefix @ m) w)
      | RunDBError m \<Rightarrow>
          if rundb_is_oserror
          then (Inl (OSError (raise_prefix @ m)), logger_error (log_prefix @ m) w)
          else (Inl e, w)
      | _ \<Rightarrow> (Inl e, w))"

text \<open>\<open>resp.text\<close>: the body decoded leniently, kept as its bytes.\<close>

definition resp_text :: "response \<Rightarrow> string" where
  "resp_text resp = content resp"

definition remote_builder ::
  "bool \<Rightarrow> (string \<Rightarrow> json option) \<Rightarrow> remote \<Rightarrow> HTTPRunDB \<Rightarrow> json \<Rightarrow> bool \<Rightarrow>
   world \<Rightarrow> (error + json) \<times> world" where
  "remote_builder rundb_is_oserror loads net self runtime with_mlrun w =
     (let req = JObj [(''function'', runtime), (''with_mlrun'', JBool with_mlrun)]
      in case api_call net self ''POST'' ''build/function'' None None None (Some req) 20 w of
           (Inl e, w') \<Rightarrow>
             on_oserror rundb_is_oserror ''error submitting build task: ''
               ''error: cannot submit build, '' e w'
         | (Inr resp, w') \<Rightarrow>
             if \<not> ok resp then
               (Inl (ValueError ''bad function run response''),
                logger_error (''bad resp!!'' @ [CHR 0x0A] @ resp_text resp) w')
             else
               (case resp_json loads resp of
                  Inl e \<Rightarrow> (Inl e, w')
                | Inr j \<Rightarrow> (Inr j, w')))"

definition get_builder_status ::
  "bool \<Rightarrow> remote \<Rightarrow> HTTPRunDB \<Rightarrow> string \<Rightarrow> string \<Rightarrow> string \<Rightarrow> int \<Rightarrow>
   world \<Rightarrow> (error + string \<times> string) \<times> world" where
  "get_builder_status rundb_is_oserror net self name project tag offset w =
     (let params = get_builder_status_params name project tag offset
      in case api_call net self ''GET'' ''build/status'' None (Some params) None None 20 w of
           (Inl e, w') \<Rightarrow>
             on_oserror rundb_is_oserror ''error getting build status: ''
               ''error: cannot get build status, '' e w'
         | (Inr resp, w') \<Rightarrow>
             if \<not> ok resp then
               (Inl (ValueError ''bad function run response''),
                logger_error (''bad resp!!'' @ [CHR 0x0A] @ resp_text resp) w')
             else
               (let (state, pod) =
                      (if headers resp \<noteq> [] then
                         (dict_get (headers resp) ''function_status'' [],
                          dict_get (headers resp) ''builder_pod'' [])
                       else ([], []))
                in (Inr (state, content resp), w')))"

subsection \<open>Path segments\<close>

text \<open>\<open>s.split('/')\<close>: the segments of a path.\<close>

fun split_slash :: "string \<Rightarrow> string list" where
  "split_slash [] = [[]]"
| "split_slash (c # cs) =
     (if c = CHR ''/'' then [] # split_slash cs
      else (case split_slash cs of
              [] \<Rightarrow> [[c]]
            | s # ss \<Rightarrow> (c # s) # ss))"

subsection \<open>Concrete clients, worlds and remote sides\<close>

definition client0 :: HTTPRunDB where
  "client0 = \<lparr>base_url = ''http://db'', user = [], password = [], token = []\<rparr>"

definition world0 :: world where
  "world0 = \<lparr>sent = [], printed = [], slept = [], logged = []\<rparr>"

definition no_json :: "string \<Rightarrow> json option" where
  "no_json body = None"

text \<open>The \<open>offset\<close> query parameter of a request, when it has one.\<close>

definition offset_of :: "request \<Rightarrow> int option" where
  "offset_of req =
     (case map_of (kw req) ''params'' of
        Some (Params ps) \<Rightarrow>
          (case map_of ps ''offset'' of Some (PInt i) \<Rightarrow> Some i | _ \<Rightarrow> None)
      | _ \<Rightarrow> None)"

text \<open>A response with status 200 and the given headers and body.\<close>

definition response200 :: "(string \<times> string) list \<Rightarrow> string \<Rightarrow> response" where
  "response200 hs body =
     \<lparr>status_code = 200, reason = ''OK'', resp_url = [], headers = hs, content = body\<rparr>"

text \<open>
  The log server of the watcher scenario: running with \<open>AB\<close> at offset 0, running with
  \<open>CD\<close> at offset 2, completed with no bytes at offset 4.
\<close>

definition scenario_net :: remote where
  "scenario_net seen req =
     (if offset_of req = Some 0 then
        Responds (response200 [(''function_status'', ''running'')] ''AB'')
      else if offset_of req = Some 2 then
        Responds (response200 [(''function_status'', ''running'')] ''CD'')
      else if offset_of req = Some 4 then
        Responds (response200 [(''function_status'', ''completed'')] [])
      else Raises (ConnectionError ''no log at this offset''))"

text \<open>Remote sides that answer every request the same way.\<close>

definition always :: "outcome \<Rightarrow> remote" where
  "always out seen req = out"

definition response304 :: response where
  "response304 =
     \<lparr>status_code = 304, reason = ''Not Modified'', resp_url = ''http://db/api/runs'',
      headers = [], content = []\<rparr>"

section \<open>Facts about the transport\<close>

lemma api_call_world:
  "snd (api_call net self meth path err params body js tmo w) =
     w\<lparr>sent := sent w @ [api_request self meth path params body js tmo]\<rparr>"
  by (simp add: api_call_def Let_def split: outcome.splits option.splits)

lemma api_kw_params:
  "map_of (api_kw self params body js) ''params'' = map_option Params params"
  by (cases params; cases body; cases js)
     (simp_all add: api_kw_def Let_def List.map_filter_simps)

lemma api_kw_data:
  "map_of (api_kw self params body js) ''data'' = map_option Data body"
  by (cases params; cases body; cases js)
     (simp_all add: api_kw_def Let_def List.map_filter_simps)

lemma api_kw_json:
  "map_of (api_kw self params body js) ''json'' = map_option Json js"
  by (cases params; cases body; cases js)
     (simp_all add: api_kw_def Let_def List.map_filter_simps)

lemma raise_200: "raise_for_status (response200 hs body) = None"
  by (simp add: raise_for_status_def response200_def)

lemma raise_for_status_None:
  "(raise_for_status resp = None) = (\<not> (400 \<le> status_code resp \<and> status_code resp < 600))"
  by (auto simp: raise_for_status_def)

lemma api_call_Inr:
  "api_call net self meth path err params body js tmo w = (Inr resp, w') \<Longrightarrow>
     raise_for_status resp = None"
  by (auto simp: api_call_def Let_def split: outcome.splits option.splits)

lemma api_call_Inl:
  "api_call net self meth path err params body js tmo w = (Inl e, w') \<Longrightarrow> \<exists>m. e = RunDBError m"
  by (auto simp: api_call_def Let_def split: outcome.splits option.splits)

lemma api_call_always_200:
  "api_call (always (Responds (response200 hs body'))) self meth path err params body js tmo w =
     (Inr (response200 hs body'), w\<lparr>sent := sent w @ [api_request self meth path params body js tmo]\<rparr>)"
  by (simp add: api_call_def always_def raise_200)

lemma sublist_method: "sublist meth (auto_message meth u e)"
  unfolding auto_message_def sublist_def by (rule exI [of _ "[]"]) simp

lemma sublist_url: "sublist u (auto_message meth u e)"
proof -
  have "auto_message meth u e = (meth @ '' '') @ u @ ('', error: '' @ exc_str e)"
    by (simp add: auto_message_def)
  then show ?thesis
    unfolding sublist_def by blast
qed

lemma sublist_path: "sublist path (api_url self path)"
  unfolding api_url_def sublist_def
  by (rule exI [of _ "base_url self @ ''/api/''"], rule exI [of _ "[]"]) simp

text \<open>
  Claim C3, as amended. When the library raises (a connection error, a timeout, any
  \<open>RequestException\<close>) or the response has a status from 400 to 599, so that
  \<open>raise_for_status\<close> raises, \<open>api_call\<close> raises a \<open>RunDBError\<close>: its message is the
  caller's error context when that is a non-empty string, and otherwise the generated
  text "METHOD URL, error: cause", which contains the method, the URL and the path. A
  response with any other status is returned, also when the status is outside 200..299.
\<close>

theorem api_call_failure_is_RunDBError:
  "(net (sent w) (api_request self meth path params body js tmo) = Raises e \<longrightarrow>
      fst (api_call net self meth path err params body js tmo w) =
        Inl (RunDBError (error_message err meth (api_url self path) e))) \<and>
   (net (sent w) (api_request self meth path params body js tmo) = Responds resp \<and>
    400 \<le> status_code resp \<and> status_code resp < 600 \<longrightarrow>
      (\<exists>e'. raise_for_status resp = Some e' \<and>
            fst (api_call net self meth path err params body js tmo w) =
              Inl (RunDBError (error_message err meth (api_url self path) e')))) \<and>
   (net (sent w) (api_request self meth path params body js tmo) = Responds resp \<and>
    \<not> (400 \<le> status_code resp \<and> status_code resp < 600) \<longrightarrow>
      fst (api_call net self meth path err params body js tmo w) = Inr resp) \<and>
   error_message None meth (api_url self path) e = auto_message meth (api_url self path) e \<and>
   error_message (Some c) meth (api_url self path) e =
     (if c \<noteq> [] then c else auto_message meth (api_url self path) e) \<and>
   auto_message meth (api_url self path) e =
     meth @ '' '' @ base_url self @ ''/api/'' @ path @ '', error: '' @ exc_str e \<and>
   sublist meth (auto_message meth (api_url self path) e) \<and>
   sublist (api_url self path) (auto_message meth (api_url self path) e) \<and>
   sublist path (auto_message meth (api_url self path) e)"
proof -
  have u: "url (api_request self meth path params body js tmo) = api_url self path"
    by (simp add: api_request_def)
  have a: "net (sent w) (api_request self meth path params body js tmo) = Raises e \<longrightarrow>
      fst (api_call net self meth path err params body js tmo w) =
        Inl (RunDBError (error_message err meth (api_url self path) e))"
    by (simp add: api_call_def Let_def u)
  have b: "net (sent w) (api_request self meth path params body js tmo) = Responds resp \<and>
    400 \<le> status_code resp \<and> status_code resp < 600 \<longrightarrow>
      (\<exists>e'. raise_for_status resp = Some e' \<and>
            fst (api_call net self meth path err params body js tmo w) =
              Inl (RunDBError (error_message err meth (api_url self path) e')))"
  proof (intro impI)
    assume h: "net (sent w) (api_request self meth path params body js tmo) = Responds resp \<and>
      400 \<le> status_code resp \<and> status_code resp < 600"
    then obtain e' where e': "raise_for_status resp = Some e'"
      using raise_for_status_None [of resp] by (cases "raise_for_status resp") auto
    with h have "fst (api_call net self meth path err params body js tmo w) =
              Inl (RunDBError (error_message err meth (api_url self path) e'))"
      by (simp add: api_call_def Let_def u)
    with e' show "\<exists>e'. raise_for_status resp = Some e' \<and>
            fst (api_call net self meth path err params body js tmo w) =
              Inl (RunDBError (error_message err meth (api_url self path) e'))"
      by blast
  qed
  have c: "net (sent w) (api_request self meth path params body js tmo) = Responds resp \<and>
      \<not> (400 \<le> status_code resp \<and> status_code resp < 600)
    \<longrightarrow> fst (api_call net self meth path err params body js tmo w) = Inr resp"
  proof -
    have "raise_for_status resp = None"
      if "\<not> (400 \<le> status_code resp \<and> status_code resp < 600)"
      using that by (simp add: raise_for_status_None)
    then show ?thesis by (auto simp: api_call_def Let_def)
  qed
  have d: "error_message None meth (api_url self path) e = auto_message meth (api_url self path) e"
    by (simp add: error_message_def str_or_def)
  have d': "error_message (Some c) meth (api_url self path) e =
     (if c \<noteq> [] then c else auto_message meth (api_url self path) e)"
    by (simp add: error_message_def str_or_def)
  have g: "auto_message meth (api_url self path) e =
     meth @ '' '' @ base_url self @ ''/api/'' @ path @ '', error: '' @ exc_str e"
    by (simp add: auto_message_def api_url_def)
  have f: "sublist path (auto_message meth (api_url self path) e)"
    using sublist_path sublist_url sublist_order.order_trans by blast
  from a b c d d' g f sublist_method sublist_url show ?thesis by blast
qed

theorem api_call_failure_is_RunDBError_witness:
  "fst (api_call (always (Raises (Timeout ''timed out''))) client0 ''GET'' ''healthz''
          None None None None 3 world0) =
     Inl (RunDBError ''GET http://db/api/healthz, error: timed out'') \<and>
   fst (api_call (always (Raises (Timeout ''timed out''))) client0 ''GET'' ''log/default/u1''
          (Some ''get log /u1'') None None None 20 world0) =
     Inl (RunDBError ''get log /u1'')"
  using api_call_failure_is_RunDBError
          [where net = "always (Raises (Timeout ''timed out''))" and self = client0
             and meth = "''GET''" and path = "''healthz''" and err = None and params = None
             and body = None and js = None and tmo = 3 and w = world0
             and e = "Timeout ''timed out''"]
        api_call_failure_is_RunDBError
          [where net = "always (Raises (Timeout ''timed out''))" and self = client0
             and meth = "''GET''" and path = "''log/default/u1''" and err = "Some ''get log /u1''"
             and params = None and body = None and js = None and tmo = 20 and w = world0
             and e = "Timeout ''timed out''" and c = "''get log /u1''"]
  by (simp add: always_def auto_message_def api_url_def client0_def)

text \<open>
  The claim as first stated fails twice: a response with status 304 is not a 2xx
  response and is returned without any error, and an error context that is the empty
  string is replaced by the generated message.
\<close>

theorem api_call_status_304_and_empty_context:
  "fst (api_call (always (Responds response304)) client0 ''DELETE'' ''runs''
          (Some ''del runs'') None None None 20 world0) = Inr response304 \<and>
   \<not> (200 \<le> status_code response304 \<and> status_code response304 < 300) \<and>
   fst (api_call (always (Raises (Timeout ''timed out''))) client0 ''GET'' ''healthz''
          (Some []) None None None 3 world0) =
     Inl (RunDBError ''GET http://db/api/healthz, error: timed out'')"
  by (simp add: api_call_def always_def raise_for_status_def response304_def error_message_def
        str_or_def auto_message_def api_request_def api_url_def client0_def)

lemma get_builder_status_eq:
  "get_builder_status b net self name project tag offset w =
     (case api_call net self ''GET'' ''build/status'' None
             (Some (get_builder_status_params name project tag offset)) None None 20 w of
        (Inl e, w1) \<Rightarrow>
          on_oserror b ''error getting build status: '' ''error: cannot get build status, '' e w1
      | (Inr r, w1) \<Rightarrow>
          (Inr (if headers r \<noteq> [] then dict_get (headers r) ''function_status'' [] else [],
                content r), w1))"
proof -
  let ?g = "api_call net self ''GET'' ''build/status'' None
              (Some (get_builder_status_params name project tag offset)) None None 20 w"
  obtain r2 w2 where g: "?g = (r2, w2)" by (cases ?g)
  show ?thesis
  proof (cases r2)
    case (Inl e)
    with g show ?thesis by (simp add: get_builder_status_def)
  next
    case (Inr r)
    with g have "ok r" using api_call_Inr [OF g [unfolded Inr]] by (simp add: ok_def)
    with g Inr show ?thesis by (simp add: get_builder_status_def)
  qed
qed

text \<open>
  Claim C6, as amended. When \<open>api_call\<close> returns, the response has passed
  \<open>raise_for_status\<close>: its status is outside 400..599 and \<open>resp.ok\<close> holds (a status
  such as 304 passes too). So the \<open>not resp.ok\<close> branches of \<open>remote_builder\<close> and
  \<open>get_builder_status\<close> are never taken: each operation equals its body without that
  branch, neither raises a \<open>ValueError\<close>, and a successful \<open>get_builder_status\<close> logs
  nothing.
\<close>

theorem api_call_result_ok_no_bad_response:
  "(api_call net self meth path err params body js tmo w = (Inr resp, w') \<longrightarrow>
      ok resp \<and> \<not> (400 \<le> status_code resp \<and> status_code resp < 600)) \<and>
   remote_builder b loads net self runtime with_mlrun w =
     (case api_call net self ''POST'' ''build/function'' None None None
             (Some (JObj [(''function'', runtime), (''with_mlrun'', JBool with_mlrun)])) 20 w of
        (Inl e, w1) \<Rightarrow>
          on_oserror b ''error submitting build task: '' ''error: cannot submit build, '' e w1
      | (Inr r, w1) \<Rightarrow>
          (case resp_json loads r of Inl e \<Rightarrow> (Inl e, w1) | Inr j \<Rightarrow> (Inr j, w1))) \<and>
   get_builder_status b net self name project tag offset w =
     (case api_call net self ''GET'' ''build/status'' None
             (Some (get_builder_status_params name project tag offset)) None None 20 w of
        (Inl e, w1) \<Rightarrow>
          on_oserror b ''error getting build status: '' ''error: cannot get build status, '' e w1
      | (Inr r, w1) \<Rightarrow>
          (Inr (if headers r \<noteq> [] then dict_get (headers r) ''function_status'' [] else [],
                content r), w1)) \<and>
   fst (remote_builder b loads net self runtime with_mlrun w) \<noteq> Inl (ValueError m) \<and>
   fst (get_builder_status b net self name project tag offset w) \<noteq> Inl (ValueError m) \<and>
   (fst (get_builder_status b net self name project tag offset w) = Inr (state, chunk) \<longrightarrow>
      logged (snd (get_builder_status b net self name project tag offset w)) = logged w)"
proof -
  have a: "api_call net self meth path err params body js tmo w = (Inr resp, w') \<longrightarrow>
      ok resp \<and> \<not> (400 \<le> status_code resp \<and> status_code resp < 600)"
    using api_call_Inr [of net self meth path err params body js tmo w resp w']
    by (simp add: ok_def raise_for_status_None)
  let ?c = "api_call net self ''POST'' ''build/function'' None None None
             (Some (JObj [(''function'', runtime), (''with_mlrun'', JBool with_mlrun)])) 20 w"
  obtain r1 w1 where c: "?c = (r1, w1)" by (cases ?c)
  have b: "remote_builder b loads net self runtime with_mlrun w =
     (case ?c of
        (Inl e, w1) \<Rightarrow>
          on_oserror b ''error submitting build task: '' ''error: cannot submit build, '' e w1
      | (Inr r, w1) \<Rightarrow>
          (case resp_json loads r of Inl e \<Rightarrow> (Inl e, w1) | Inr j \<Rightarrow> (Inr j, w1)))"
  proof (cases r1)
    case (Inl e)
    with c show ?thesis by (simp add: remote_builder_def)
  next
    case (Inr r)
    with c have "ok r" using api_call_Inr [OF c [unfolded Inr]] by (simp add: ok_def)
    with c Inr show ?thesis by (simp add: remote_builder_def)
  qed
  have d: "fst (remote_builder b loads net self runtime with_mlrun w) \<noteq> Inl (ValueError m)"
  proof (cases r1)
    case (Inl e)
    then obtain m' where "e = RunDBError m'" using api_call_Inl c by blast
    with c Inl show ?thesis unfolding b by (simp add: on_oserror_def)
  next
    case (Inr r)
    with c show ?thesis unfolding b by (simp add: resp_json_def split: option.splits)
  qed
  let ?g = "api_call net self ''GET'' ''build/status'' None
              (Some (get_builder_status_params name project tag offset)) None None 20 w"
  obtain r2 w2 where g: "?g = (r2, w2)" by (cases ?g)
  have w2: "logged w2 = logged w"
    using api_call_world [of net self "''GET''" "''build/status''" None
        "Some (get_builder_status_params name project tag offset)" None None 20 w] g by simp
  have e: "fst (get_builder_status b net self name project tag offset w) \<noteq> Inl (ValueError m)"
  proof (cases r2)
    case (Inl e)
    then obtain m' where "e = RunDBError m'" using api_call_Inl g by blast
    with g Inl show ?thesis by (simp add: get_builder_status_def on_oserror_def)
  next
    case (Inr r)
    with g have "ok r" using api_call_Inr [OF g [unfolded Inr]] by (simp add: ok_def)
    with g Inr show ?thesis by (simp add: get_builder_status_def)
  qed
  have f: "fst (get_builder_status b net self name project tag offset w) = Inr (state, chunk) \<longrightarrow>
      logged (snd (get_builder_status b net self name project tag offset w)) = logged w"
  proof (cases r2)
    case (Inl e)
    then obtain m' where "e = RunDBError m'" using api_call_Inl g by blast
    with g Inl show ?thesis by (simp add: get_builder_status_def on_oserror_def)
  next
    case (Inr r)
    with g have "ok r" using api_call_Inr [OF g [unfolded Inr]] by (simp add: ok_def)
    with g Inr w2 show ?thesis by (simp add: get_builder_status_def)
  qed
  note g' = get_builder_status_eq [of b net self name project tag offset w]
  from a b g' d e f show ?thesis by (intro conjI)
qed

theorem api_call_result_ok_no_bad_response_witness:
  "ok (response200 [(''function_status'', ''ready'')] ''log'') \<and>
   fst (api_call (always (Responds (response200 [(''function_status'', ''ready'')] ''log'')))
          client0 ''GET'' ''build/status'' None None None None 20 world0)
     = Inr (response200 [(''function_status'', ''ready'')] ''log'') \<and>
   fst (get_builder_status False
          (always (Responds (response200 [(''function_status'', ''ready'')] ''log'')))
          client0 ''f'' [] [] (- 1) world0) = Inr (''ready'', ''log'') \<and>
   logged (snd (get_builder_status False
          (always (Responds (response200 [(''function_status'', ''ready'')] ''log'')))
          client0 ''f'' [] [] (- 1) world0)) = []"
  using api_call_result_ok_no_bad_response
          [where net = "always (Responds (response200 [(''function_status'', ''ready'')] ''log''))"
             and self = client0 and meth = "''GET''" and path = "''build/status''"
             and err = None and params = None and body = None and js = None and tmo = 20
             and w = world0
             and resp = "response200 [(''function_status'', ''ready'')] ''log''"
             and w' = "world0\<lparr>sent := sent world0 @
                        [api_request client0 ''GET'' ''build/status'' None None None 20]\<rparr>"
             and b = False and name = "''f''" and project = "[]" and tag = "[]"
             and offset = "- 1" and state = "''ready''" and chunk = "''log''"]
  by (simp add: api_call_always_200 get_builder_status_def ok_def raise_200)
     (simp add: response200_def dict_get_def world0_def)

text \<open>
  The claim as first stated says that a returned response has a 2xx status; a
  response with status 304 is returned.
\<close>

theorem api_call_returns_status_304:
  "fst (api_call (always (Responds response304)) client0 ''GET'' ''runs'' None None None None 20 world0)
     = Inr response304 \<and>
   \<not> (200 \<le> status_code response304 \<and> status_code response304 < 300)"
  by (simp add: api_call_def always_def raise_for_status_def response304_def)

section \<open>The query parameters\<close>

lemma params_of_PNone:
  "params_of opn = Some ps \<Longrightarrow> (k, PNone) \<in> set ps \<Longrightarrow>
     k = ''uid'' \<and> (\<exists>name project labels state srt lst iter.
                       opn = List_runs name None project labels state srt lst iter)"
  by (cases opn)
     (auto simp: store_log_params_def get_log_params_def iter_params_def list_runs_params_def
        del_runs_params_def tag_params_def del_artifact_params_def list_artifacts_params_def
        del_artifacts_params_def list_functions_params_def get_builder_status_params_def
        str_or_none_def Let_def split: if_splits option.splits)

text \<open>
  Claim C2, as amended. The \<open>params\<close> dict an operation hands to \<open>api_call\<close> holds the
  value \<open>None\<close> under one key only: \<open>uid\<close> of \<open>list_runs\<close>, when its \<open>uid\<close> argument is
  left at the default \<open>None\<close>; the dict goes into the request as it is. What
  \<open>api_call\<close> leaves out are the keywords \<open>params\<close>, \<open>data\<close> and \<open>json\<close> whose whole
  value is \<open>None\<close>.
\<close>

theorem params_none_only_list_runs_uid:
  "(params_of opn = Some ps \<and> (k, PNone) \<in> set ps \<longrightarrow>
      k = ''uid'' \<and> (\<exists>name project labels state srt lst iter.
                        opn = List_runs name None project labels state srt lst iter)) \<and>
   map_of (kw (api_request self meth path params body js tmo)) ''params'' = map_option Params params \<and>
   map_of (kw (api_request self meth path params body js tmo)) ''data'' = map_option Data body \<and>
   map_of (kw (api_request self meth path params body js tmo)) ''json'' = map_option Json js \<and>
   sent (snd (list_runs loads net self name uid project labels state srt lst iter w)) =
     sent w @ [api_request self ''GET'' ''runs''
                 (params_of (List_runs name uid project labels state srt lst iter)) None None 20]"
proof -
  have "snd (list_runs loads net self name uid project labels state srt lst iter w) =
        snd (api_call net self ''GET'' ''runs'' (Some ''list runs'')
               (Some (list_runs_params name uid project labels state srt iter)) None None 20 w)"
    by (simp add: list_runs_def Let_def split: prod.splits sum.splits)
  then have "sent (snd (list_runs loads net self name uid project labels state srt lst iter w)) =
     sent w @ [api_request self ''GET'' ''runs''
                 (params_of (List_runs name uid project labels state srt lst iter)) None None 20]"
    by (simp add: api_call_world)
  with params_of_PNone [of opn ps k] show ?thesis
    by (simp add: api_request_def api_kw_params api_kw_data api_kw_json)
qed

theorem params_none_only_list_runs_uid_witness:
  "params_of (List_runs [] None [] None [] True 0 False) =
     Some [(''name'', PStr []), (''uid'', PNone), (''project'', PStr ''default''),
           (''label'', PList []), (''state'', PStr []), (''sort'', PStr ''yes''),
           (''iter'', PStr ''no'')] \<and>
   PNone \<notin> snd ` set (the (params_of (List_runs [] (Some ''u1'') [] None [] True 0 False)))"
  using params_none_only_list_runs_uid
          [where opn = "List_runs [] None [] None [] True 0 False"
             and ps = "list_runs_params [] None [] None [] True False" and k = "''uid''"]
  by (simp add: list_runs_params_def str_or_none_def str_or_def default_project_def
        list_or_empty_def bool2str_def)

text \<open>
  The claim as first stated fails for \<open>list_runs\<close> with \<open>uid\<close> at its default: the
  request that goes out has \<open>uid\<close> mapped to \<open>None\<close> in its \<open>params\<close>.
\<close>

theorem list_runs_sends_uid_none:
  "sent (snd (list_runs no_json (always (Raises (Timeout ''timed out''))) client0
                [] None [] None [] True 0 False world0)) =
     [\<lparr>req_method = ''GET'', url = ''http://db/api/runs'', timeout = 20,
       kw = [(''params'',
              Params [(''name'', PStr []), (''uid'', PNone), (''project'', PStr ''default''),
                      (''label'', PList []), (''state'', PStr []), (''sort'', PStr ''yes''),
                      (''iter'', PStr ''no'')])]\<rparr>]"
  by (simp add: list_runs_def api_call_def always_def api_request_def api_kw_def api_url_def
        client0_def world0_def List.map_filter_simps list_runs_params_def str_or_none_def
        str_or_def default_project_def list_or_empty_def bool2str_def)

section \<open>The path builder\<close>

text \<open>
  Claim C4. For every kind and identifier, the path built with an empty project equals
  the path built with the project set to the default project constant, and every path
  has the form kind/project/identifier, with the project resolved to the default when
  it is empty.
\<close>

theorem path_of_empty_project_is_default:
  "path_of pfx [] uid = path_of pfx default_project uid \<and>
   path_of pfx [] uid = pfx @ ''/'' @ default_project @ ''/'' @ uid \<and>
   path_of pfx project uid =
     pfx @ ''/'' @ (if project = [] then default_project else project) @ ''/'' @ uid"
  by (simp add: path_of_def str_or_def default_project_def)

lemma split_slash_not_Nil: "split_slash s \<noteq> []"
  by (induction s) (auto split: list.splits)

lemma split_slash_join:
  "split_slash (a @ CHR ''/'' # b) = split_slash a @ split_slash b"
proof (induction a)
  case Nil
  show ?case by simp
next
  case (Cons c a)
  obtain s ss where "split_slash a = s # ss"
    using split_slash_not_Nil [of a] by (cases "split_slash a") auto
  with Cons show ?case by simp
qed

lemma split_slash_plain: "CHR ''/'' \<notin> set s \<Longrightarrow> split_slash s = [s]"
  by (induction s) (auto split: list.splits)

lemma path_of_split:
  "split_slash (path_of pfx project uid) =
     split_slash pfx @ split_slash (str_or project default_project) @ split_slash uid"
  by (simp add: path_of_def Let_def split_slash_join)

text \<open>
  Claim C5, as amended. Every path is kind/project/identifier with an empty project
  resolved to the default, and its segments are those of the three parts. It has an
  empty segment exactly when the kind, a non-empty project or the identifier has one
  (an empty kind or identifier is one empty segment); it has none when kind and
  identifier are non-empty and no part contains a slash.
\<close>

theorem path_of_segments:
  "path_of pfx project uid = pfx @ ''/'' @ str_or project default_project @ ''/'' @ uid \<and>
   split_slash (path_of pfx project uid) =
     split_slash pfx @ split_slash (str_or project default_project) @ split_slash uid \<and>
   ([] \<in> set (split_slash (path_of pfx project uid))) =
     ([] \<in> set (split_slash pfx) \<or> (project \<noteq> [] \<and> [] \<in> set (split_slash project)) \<or>
      [] \<in> set (split_slash uid)) \<and>
   (pfx \<noteq> [] \<and> uid \<noteq> [] \<and> CHR ''/'' \<notin> set pfx \<and> CHR ''/'' \<notin> set project \<and> CHR ''/'' \<notin> set uid
      \<longrightarrow> [] \<notin> set (split_slash (path_of pfx project uid)))"
proof -
  have d: "split_slash default_project = [''default'']"
    by (simp add: default_project_def)
  have a: "path_of pfx project uid = pfx @ ''/'' @ str_or project default_project @ ''/'' @ uid"
    by (simp add: path_of_def)
  have c: "([] \<in> set (split_slash (path_of pfx project uid))) =
     ([] \<in> set (split_slash pfx) \<or> (project \<noteq> [] \<and> [] \<in> set (split_slash project)) \<or>
      [] \<in> set (split_slash uid))"
    by (auto simp: path_of_split str_or_def d)
  have e: "pfx \<noteq> [] \<and> uid \<noteq> [] \<and> CHR ''/'' \<notin> set pfx \<and> CHR ''/'' \<notin> set project \<and> CHR ''/'' \<notin> set uid
      \<longrightarrow> [] \<notin> set (split_slash (path_of pfx project uid))"
    unfolding c by (auto simp: split_slash_plain)
  from a path_of_split c e show ?thesis by blast
qed

theorem path_of_segments_witness:
  "[] \<notin> set (split_slash (path_of ''run'' [] ''u1'')) \<and>
   split_slash (path_of ''run'' [] ''u1'') = [''run'', ''default'', ''u1'']"
  using path_of_segments [of "''run''" "[]" "''u1''"]
  by (simp add: str_or_def default_project_def)

text \<open>
  The claim as first stated fails for an empty identifier: the path ends in a slash,
  and its last segment is empty.
\<close>

theorem path_of_empty_uid_empty_segment:
  "path_of ''log'' [] [] = ''log/default/'' \<and>
   split_slash (path_of ''log'' [] []) = [''log'', ''default'', []] \<and>
   [] \<in> set (split_slash (path_of ''log'' [] []))"
  by (simp add: path_of_def str_or_def default_project_def)

section \<open>Logs\<close>

text \<open>
  Claim C8. \<open>store_log\<close> with a body that is \<open>None\<close> or empty sends no request, leaves
  the world as it is and returns without error; with a non-empty body exactly one
  request goes out, and it is a POST.
\<close>

theorem store_log_network_calls:
  "(body = None \<or> body = Some [] \<longrightarrow>
      store_log net self uid project body appnd w = (Inr (), w)) \<and>
   (body \<noteq> None \<and> body \<noteq> Some [] \<longrightarrow>
      (\<exists>req. sent (snd (store_log net self uid project body appnd w)) = sent w @ [req] \<and>
             req_method req = ''POST'' \<and>
             req = api_request self ''POST'' (path_of ''log'' project uid)
                     (Some (store_log_params appnd)) body None 20))"
proof -
  have "snd (store_log net self uid project body appnd w) =
          snd (api_call net self ''POST'' (path_of ''log'' project uid)
                 (Some (''store log '' @ project @ ''/'' @ uid))
                 (Some (store_log_params appnd)) body None 20 w)"
    if "body \<noteq> None \<and> body \<noteq> Some []"
    using that by (cases body) (simp_all add: store_log_def Let_def split: prod.splits sum.splits)
  then show ?thesis
    by (auto simp: store_log_def api_call_world api_request_def)
qed

theorem store_log_network_calls_witness:
  "store_log (always (Raises (Timeout ''timed out''))) client0 ''u1'' [] None False world0 =
     (Inr (), world0) \<and>
   store_log (always (Raises (Timeout ''timed out''))) client0 ''u1'' [] (Some []) False world0 =
     (Inr (), world0) \<and>
   map req_method
     (sent (snd (store_log (always (Responds (response200 [] []))) client0 ''u1'' []
                   (Some ''line'') True world0))) = [''POST'']"
  using store_log_network_calls
          [of None "always (Raises (Timeout ''timed out''))" client0 "''u1''" "[]" False world0]
        store_log_network_calls
          [of "Some []" "always (Raises (Timeout ''timed out''))" client0 "''u1''" "[]" False world0]
        store_log_network_calls
          [of "Some ''line''" "always (Responds (response200 [] []))" client0 "''u1''" "[]" True
              world0]
  by (auto simp: world0_def)

lemma offset_of_get_log:
  "offset_of (api_request self meth path (Some (get_log_params offset sz)) body js tmo) = Some offset"
  by (simp add: offset_of_def api_request_def api_kw_params get_log_params_def)

lemma get_log_200:
  assumes "net (sent w) (api_request self ''GET'' (path_of ''log'' project uid)
                          (Some (get_log_params offset sz)) None None 20) =
             Responds (response200 [(''function_status'', st)] body)"
  shows "get_log net self uid project offset sz w =
     (Inr (st, body),
      w\<lparr>sent := sent w @ [api_request self ''GET'' (path_of ''log'' project uid)
                             (Some (get_log_params offset sz)) None None 20]\<rparr>)"
  using assms
  by (simp add: get_log_def api_call_def Let_def raise_200)
     (simp add: response200_def dict_get_def)

lemma get_log_world:
  "snd (get_log net self uid project offset sz w) =
     w\<lparr>sent := sent w @ [api_request self ''GET'' (path_of ''log'' project uid)
                            (Some (get_log_params offset sz)) None None 20]\<rparr>"
proof -
  have "snd (get_log net self uid project offset sz w) =
        snd (api_call net self ''GET'' (path_of ''log'' project uid)
               (Some (''get log '' @ project @ ''/'' @ uid))
               (Some (get_log_params offset sz)) None None 20 w)"
    by (simp add: get_log_def Let_def split: prod.splits sum.splits)
  then show ?thesis by (simp add: api_call_world)
qed

text \<open>
  Claim C7. \<open>get_log\<close> returns a pair of status and bytes only for a response with a
  non-empty header dict, the status being its \<open>function_status\<close> header; for a
  response that passes the status check with an empty header dict it raises
  \<open>UnboundLocalError\<close> for \<open>state\<close>.
\<close>

theorem get_log_state_needs_headers:
  "(get_log net self uid project offset sz w = (Inr (state, text), w') \<longrightarrow>
      (\<exists>resp. net (sent w) (api_request self ''GET'' (path_of ''log'' project uid)
                              (Some (get_log_params offset sz)) None None 20) = Responds resp \<and>
              headers resp \<noteq> [] \<and>
              state = dict_get (headers resp) ''function_status'' [] \<and>
              text = content resp)) \<and>
   (net (sent w) (api_request self ''GET'' (path_of ''log'' project uid)
                    (Some (get_log_params offset sz)) None None 20) = Responds resp \<and>
    raise_for_status resp = None \<and> headers resp = [] \<longrightarrow>
      fst (get_log net self uid project offset sz w) = Inl (UnboundLocalError ''state''))"
  by (auto simp: get_log_def api_call_def Let_def split: outcome.splits option.splits if_splits)

theorem get_log_state_needs_headers_witness:
  "fst (get_log (always (Responds (response200 [] ''line''))) client0 ''u1'' [] 0 0 world0) =
     Inl (UnboundLocalError ''state'') \<and>
   fst (get_log (always (Responds (response200 [(''function_status'', ''running'')] ''line'')))
          client0 ''u1'' [] 0 0 world0) = Inr (''running'', ''line'')"
  using get_log_state_needs_headers
          [of "always (Responds (response200 [] ''line''))" client0 "''u1''" "[]" 0 0 world0
              "[]" "[]" world0 "response200 [] ''line''"]
  by (simp add: always_def raise_200 get_log_200)
     (simp add: response200_def)

section \<open>The log watcher\<close>

lemma scenario_0:
  "scenario_net seen (api_request self meth path (Some (get_log_params 0 sz)) body js tmo) =
     Responds (response200 [(''function_status'', ''running'')] ''AB'')"
  by (simp add: scenario_net_def offset_of_get_log)

lemma scenario_2:
  "scenario_net seen (api_request self meth path (Some (get_log_params 2 sz)) body js tmo) =
     Responds (response200 [(''function_status'', ''running'')] ''CD'')"
  by (simp add: scenario_net_def offset_of_get_log)

lemma scenario_4:
  "scenario_net seen (api_request self meth path (Some (get_log_params 4 sz)) body js tmo) =
     Responds (response200 [(''function_status'', ''completed'')] [])"
  by (simp add: scenario_net_def offset_of_get_log)

lemma emit_AB:
  "emit ''AB'' e w = (Inr (), print_end ''AB'' e w)"
  "emit ''CD'' e w = (Inr (), print_end ''CD'' e w)"
  "emit [] e w = (Inr (), w)"
  by (simp_all add: emit_def decode_def in_range_def)

lemma emit_world:
  "sent (snd (emit text e w)) = sent w" "slept (snd (emit text e w)) = slept w"
  by (simp_all add: emit_def print_end_def split: sum.splits)

lemma emit_result:
  "fst (emit text e w) = (if text = [] \<or> utf8_valid text then Inr () else Inl UnicodeDecodeError)"
  by (simp add: emit_def decode_def)

text \<open>
  Claim C1. Against the log server that answers running with \<open>AB\<close> at offset 0,
  running with \<open>CD\<close> at offset 2 and completed with no bytes at offset 4, \<open>watch_log\<close>
  with \<open>watch\<close> true and offset 0 returns \<open>completed\<close>; it prints \<open>AB\<close> and then \<open>CD\<close>
  (the first with the line end of \<open>print\<close>, the second with none), sends three
  requests, at the offsets 0, 2 and 4, and sleeps twice, 2 each time.
\<close>

theorem watch_log_scenario:
  "\<exists>w'. watch_log scenario_net self uid project True 0 w = Some (Inr ''completed'', w') \<and>
        printed w' = printed w @ [(''AB'', [CHR 0x0A]), (''CD'', [])] \<and>
        map offset_of (sent w') = map offset_of (sent w) @ [Some 0, Some 2, Some 4] \<and>
        map req_method (sent w') = map req_method (sent w) @ [''GET'', ''GET'', ''GET''] \<and>
        slept w' = slept w @ [2, 2] \<and> logged w' = logged w"
  by (simp add: watch_log_def watch_loop.simps get_log_200 scenario_0 scenario_2 scenario_4 emit_AB
        sleep_def print_end_def offset_of_get_log)
     (simp add: api_request_def)

text \<open>
  Claim C9. \<open>watch_log\<close> with \<open>watch\<close> false always returns after exactly one request,
  the \<open>get_log\<close> at the given offset, without sleeping; its result is the status that
  \<open>get_log\<close> returned, whatever it is (or the error of \<open>get_log\<close>, or of decoding the
  bytes for printing).
\<close>

theorem watch_log_no_watch_one_fetch:
  "\<exists>w'. watch_log net self uid project False offset w =
          Some ((case fst (get_log net self uid project offset 0 w) of
                   Inl e \<Rightarrow> Inl e
                 | Inr (state, text) \<Rightarrow>
                     if text = [] \<or> utf8_valid text then Inr state
                     else Inl UnicodeDecodeError), w') \<and>
        sent w' = sent w @ [api_request self ''GET'' (path_of ''log'' project uid)
                              (Some (get_log_params offset 0)) None None 20] \<and>
        slept w' = slept w"
proof (cases "get_log net self uid project offset 0 w")
  case (Pair r w1)
  have w1: "w1 = w\<lparr>sent := sent w @ [api_request self ''GET'' (path_of ''log'' project uid)
                            (Some (get_log_params offset 0)) None None 20]\<rparr>"
    using get_log_world [of net self uid project offset 0 w] Pair by simp
  show ?thesis
  proof (cases r)
    case (Inl e)
    with Pair w1 show ?thesis by (simp add: watch_log_def)
  next
    case (Inr st)
    obtain state chunk where st: "st = (state, chunk)" by (cases st)
    obtain u w2 where em: "emit chunk [CHR 0x0A] w1 = (u, w2)" by (cases "emit chunk [CHR 0x0A] w1")
    have u: "u = (if chunk = [] \<or> utf8_valid chunk then Inr () else Inl UnicodeDecodeError)"
      using emit_result [of chunk "[CHR 0x0A]" w1] em by simp
    have s2: "sent w2 = sent w1" "slept w2 = slept w1"
      using emit_world [of chunk "[CHR 0x0A]" w1] em by simp_all
    show ?thesis
      using Pair Inr st em u s2 w1 by (simp add: watch_log_def)
  qed
qed

theorem watch_log_no_watch_one_fetch_witness:
  "\<exists>w'. watch_log scenario_net client0 ''u1'' [] False 0 world0 = Some (Inr ''running'', w') \<and>
        length (sent w') = 1 \<and> slept w' = []"
  using watch_log_no_watch_one_fetch [of scenario_net client0 "''u1''" "[]" 0 world0]
  by (auto simp: get_log_200 scenario_0 in_range_def world0_def)

section \<open>The build status\<close>

text \<open>
  Claim C10. \<open>get_builder_status\<close> reads the headers \<open>function_status\<close> and
  \<open>builder_pod\<close>, but returns the status and the body only: two responses that
  differ in \<open>builder_pod\<close> alone give the same result, in which no pod name occurs.
\<close>

theorem get_builder_status_drops_pod:
  "fst (get_builder_status b
          (always (Responds (response200
             [(''function_status'', ''ready''), (''builder_pod'', ''pod-1'')] ''log'')))
          client0 ''f'' [] [] (- 1) world0) = Inr (''ready'', ''log'') \<and>
   fst (get_builder_status b
          (always (Responds (response200
             [(''function_status'', ''ready''), (''builder_pod'', ''pod-2'')] ''log'')))
          client0 ''f'' [] [] (- 1) world0) = Inr (''ready'', ''log'')"
  by (simp add: get_builder_status_def api_call_always_200 ok_def raise_200)
     (simp add: response200_def dict_get_def)

end
